theory Spec2Isabelle
  imports Main "HOL-Library.Sublist"
begin

section \<open>Python values, exceptions and process outcomes\<close>

text \<open>
  The plugin keeps all of its settings in one dictionary, \<open>snmp_check_values\<close>, whose
  values are strings, integers and booleans. A dictionary is a partial map from keys to
  values; a Python \<open>str\<close> is a \<open>string\<close> (code points below 256).
\<close>

datatype pyval = PInt int | PBool bool | PStr string

type_synonym pydict = "string \<rightharpoonup> pyval"

datatype exc =
    KeyError string
  | IndexError
  | ValueError
  | TypeError
  | UnicodeDecodeError
  | SubprocessError

text \<open>
  How a run of the script ends: \<open>SysExit c out\<close> is \<open>sys.exit(c)\<close> after one of the
  reporting functions printed \<open>out\<close>; \<open>Uncaught e\<close> is an exception that reaches the top
  level (the interpreter prints a traceback on standard error and the exit status is 1);
  \<open>Returned\<close> is the function running off its end.
\<close>

datatype outcome = SysExit int string | Uncaught exc | Returned

fun exit_status :: "outcome \<Rightarrow> int" where
  "exit_status (SysExit c out) = c"
| "exit_status (Uncaught e) = 1"
| "exit_status Returned = 0"

definition newline :: char where
  "newline = CHR 0x0A"

text \<open>\<open>print(a, b)\<close> writes \<open>a\<close>, a space, \<open>b\<close> and a newline.\<close>

definition print2 :: "string \<Rightarrow> string \<Rightarrow> string" where
  "print2 a b = a @ '' '' @ b @ [newline]"

subsection \<open>The reporting functions (lines 17-39)\<close>

definition ok :: "string \<Rightarrow> outcome" where
  "ok msg = SysExit 0 (print2 ''OK:'' msg)"

definition warning :: "string \<Rightarrow> outcome" where
  "warning msg = SysExit 1 (print2 ''WARNING:'' msg)"

definition critical :: "string \<Rightarrow> outcome" where
  "critical msg = SysExit 2 (print2 ''CRITICAL:'' msg)"

definition unknown :: "string \<Rightarrow> outcome" where
  "unknown msg = SysExit 3 (print2 ''UNKNOWN:'' msg)"

definition error :: "string \<Rightarrow> outcome" where
  "error msg = SysExit 3 (print2 ''ERROR:'' msg)"

section \<open>Python primitives used by the check\<close>

text \<open>
  An expression either raises or has a value. \<open>and_then m f\<close> evaluates \<open>m\<close> and, unless
  it raised, goes on with \<open>f\<close> on its value.
\<close>

definition and_then :: "exc + 'a \<Rightarrow> ('a \<Rightarrow> exc + 'b) \<Rightarrow> exc + 'b" where
  "and_then m f = (case m of Inl e \<Rightarrow> Inl e | Inr x \<Rightarrow> f x)"

text \<open>\<open>d[k]\<close> raises \<open>KeyError\<close> when the key is absent.\<close>

definition lookup :: "pydict \<Rightarrow> string \<Rightarrow> exc + pyval" where
  "lookup d k = (case d k of None \<Rightarrow> Inl (KeyError k) | Some v \<Rightarrow> Inr v)"

text \<open>Truth value of an object in a condition.\<close>

fun truthy :: "pyval \<Rightarrow> bool" where
  "truthy (PInt i) = (i \<noteq> 0)"
| "truthy (PBool b) = b"
| "truthy (PStr s) = (s \<noteq> [])"

text \<open>\<open>v == False\<close> and \<open>v == True\<close>: a \<open>bool\<close> is the integer 0 or 1.\<close>

fun eq_False :: "pyval \<Rightarrow> bool" where
  "eq_False (PInt i) = (i = 0)"
| "eq_False (PBool b) = (\<not> b)"
| "eq_False (PStr s) = False"

fun eq_True :: "pyval \<Rightarrow> bool" where
  "eq_True (PInt i) = (i = 1)"
| "eq_True (PBool b) = b"
| "eq_True (PStr s) = False"

text \<open>
  The operand of an ordering comparison whose other operand is an \<open>int\<close>: numbers
  compare by value, a string raises \<open>TypeError\<close>.
\<close>

fun num_of :: "pyval \<Rightarrow> exc + int" where
  "num_of (PInt i) = Inr i"
| "num_of (PBool b) = Inr (if b then 1 else 0)"
| "num_of (PStr s) = Inl TypeError"

text \<open>\<open>'literal' + v\<close>: only a \<open>str\<close> can be appended to a \<open>str\<close>.\<close>

fun str_add :: "string \<Rightarrow> pyval \<Rightarrow> exc + string" where
  "str_add a (PStr s) = Inr (a @ s)"
| "str_add a (PInt i) = Inl TypeError"
| "str_add a (PBool b) = Inl TypeError"

text \<open>\<open>xs[i]\<close> for a non-negative literal index.\<close>

definition index :: "'a list \<Rightarrow> nat \<Rightarrow> exc + 'a" where
  "index xs i = (if i < length xs then Inr (xs ! i) else Inl IndexError)"

text \<open>Characters that \<open>str.split()\<close> and \<open>int()\<close> treat as whitespace.\<close>

definition is_space :: "char \<Rightarrow> bool" where
  "is_space c = (c \<in> set [CHR 0x09, CHR 0x0A, CHR 0x0B, CHR 0x0C, CHR 0x0D,
                          CHR 0x1C, CHR 0x1D, CHR 0x1E, CHR 0x1F, CHR 0x20,
                          CHR 0x85, CHR 0xA0])"

text \<open>
  \<open>s.split()\<close>: the maximal runs of non-whitespace characters. \<open>cur\<close> is the token
  being read.
\<close>

fun split_from :: "string \<Rightarrow> string \<Rightarrow> string list" where
  "split_from cur [] = (if cur = [] then [] else [cur])"
| "split_from cur (c # cs) =
     (if is_space c then (if cur = [] then split_from [] cs else cur # split_from [] cs)
      else split_from (cur @ [c]) cs)"

definition split :: "string \<Rightarrow> string list" where
  "split s = split_from [] s"

text \<open>\<open>s.split(sep)\<close> for a one-character separator: never empty.\<close>

fun split_on :: "char \<Rightarrow> string \<Rightarrow> string list" where
  "split_on sep [] = [[]]"
| "split_on sep (c # cs) =
     (if c = sep then [] # split_on sep cs
      else (case split_on sep cs of
              [] \<Rightarrow> [[c]]
            | w # ws \<Rightarrow> (c # w) # ws))"

text \<open>
  \<open>int(s)\<close> for a string: surrounding whitespace is dropped, then an optional sign and
  decimal digits, where single underscores may stand between digits. Anything else
  raises \<open>ValueError\<close>. (The cap on the number of digits that recent interpreters
  apply is not part of the model.)
\<close>

definition is_digit :: "char \<Rightarrow> bool" where
  "is_digit c = (c \<in> set ''0123456789'')"

definition digit_val :: "char \<Rightarrow> nat" where
  "digit_val c = of_char c - 48"

fun digits_from :: "nat \<Rightarrow> string \<Rightarrow> nat option" where
  "digits_from acc [] = Some acc"
| "digits_from acc [c] = (if is_digit c then Some (acc * 10 + digit_val c) else None)"
| "digits_from acc (c # c' # cs) =
     (if is_digit c then digits_from (acc * 10 + digit_val c) (c' # cs)
      else if c = CHR ''_'' \<and> is_digit c' then digits_from (acc * 10 + digit_val c') cs
      else None)"

fun parse_nat :: "string \<Rightarrow> nat option" where
  "parse_nat [] = None"
| "parse_nat (c # cs) = (if is_digit c then digits_from (digit_val c) cs else None)"

definition strip :: "string \<Rightarrow> string" where
  "strip s = rev (dropWhile is_space (rev (dropWhile is_space s)))"

definition signed_of :: "string \<Rightarrow> int option" where
  "signed_of s =
     (case s of
        [] \<Rightarrow> None
      | c # cs \<Rightarrow>
          if c = CHR ''-'' then map_option (\<lambda>n. - int n) (parse_nat cs)
          else if c = CHR ''+'' then map_option int (parse_nat cs)
          else map_option int (parse_nat (c # cs)))"

definition py_int :: "string \<Rightarrow> exc + int" where
  "py_int s = (case signed_of (strip s) of None \<Rightarrow> Inl ValueError | Some i \<Rightarrow> Inr i)"

section \<open>The external polling command\<close>

text \<open>
  A \<open>bytes\<close> object returned by \<open>subprocess.check_output\<close> is represented by what
  \<open>.decode()\<close> makes of it: the decoded text, or nothing when the bytes are not valid
  UTF-8.
\<close>

datatype bytes = Undecodable | Utf8 string

fun decode :: "bytes \<Rightarrow> exc + string" where
  "decode Undecodable = Inl UnicodeDecodeError"
| "decode (Utf8 s) = Inr s"

text \<open>
  The world outside the script: what running a command line prints, or \<open>None\<close> when
  \<open>check_output\<close> raises (the utility is missing, exits with a non-zero status, ...).
\<close>

type_synonym shell = "string list \<Rightarrow> bytes option"

fun str_args :: "pyval list \<Rightarrow> string list option" where
  "str_args [] = Some []"
| "str_args (PStr s # vs) = map_option ((#) s) (str_args vs)"
| "str_args (PInt i # vs) = None"
| "str_args (PBool b # vs) = None"

text \<open>\<open>subprocess.check_output(argv)\<close>: every element of \<open>argv\<close> has to be a string.\<close>

definition check_output :: "shell \<Rightarrow> pyval list \<Rightarrow> exc + bytes" where
  "check_output sh argv =
     (case str_args argv of
        None \<Rightarrow> Inl TypeError
      | Some ws \<Rightarrow> (case sh ws of None \<Rightarrow> Inl SubprocessError | Some out \<Rightarrow> Inr out))"

section \<open>\<open>check_asa_sessions\<close>\<close>

subsection \<open>Acquisition (lines 44-73)\<close>

text \<open>One \<open>snmpwalk\<close> call: the argument list is built first, entry by entry.\<close>

definition snmpwalk :: "shell \<Rightarrow> pydict \<Rightarrow> string \<Rightarrow> exc + bytes" where
  "snmpwalk sh d oid_key =
     and_then (lookup d ''snmp_community'') (\<lambda>community.
     and_then (lookup d ''snmp_host'') (\<lambda>host.
     and_then (lookup d oid_key) (\<lambda>oid.
       check_output sh
         [PStr ''snmpwalk'', PStr ''-v'', PStr ''2c'', PStr ''-c'', community, host, oid])))"

text \<open>The body of the first \<open>try\<close>: the session poll, then the model poll.\<close>

definition acquire :: "shell \<Rightarrow> pydict \<Rightarrow> exc + (bytes \<times> bytes)" where
  "acquire sh d =
     and_then (snmpwalk sh d ''snmp_oid_asa_sessions'') (\<lambda>command_output_sessions.
     and_then (snmpwalk sh d ''snmp_oid_asa_model'') (\<lambda>command_output_model.
       Inr (command_output_sessions, command_output_model)))"

text \<open>The message built in the first \<open>except\<close> block (lines 68-71).\<close>

definition poll_error_msg :: "pydict \<Rightarrow> exc + string" where
  "poll_error_msg d =
     and_then (lookup d ''snmp_host'') (\<lambda>host.
     and_then (str_add (newline # ''Is the host '') host) (\<lambda>line2.
     and_then (lookup d ''snmp_community'') (\<lambda>community.
     and_then (str_add (newline # ''Is SNMP community string '' @ [CHR 0x27]) community)
       (\<lambda>line4.
       Inr (''Something went wrong with subprocess command '' @ [CHR 0x27] @ ''snmpwalk''
            @ [CHR 0x27]
            @ (line2 @ '' reachable?'')
            @ (newline # ''Is it configured to accept SNMP polls from this host?'')
            @ (line4 @ [CHR 0x27] @ '' valid?''))))))"

subsection \<open>Parsing (lines 76-85)\<close>

definition parse_error_msg :: string where
  "parse_error_msg =
     ''Something went wrong parsing data. Probably wrong SNMP OID for this device.''"

text \<open>
  The body of the second \<open>try\<close>. The session token stays a string here; nothing
  converts it to a number inside the \<open>try\<close>.
\<close>

definition parse_outputs :: "bytes \<Rightarrow> bytes \<Rightarrow> exc + (string \<times> string)" where
  "parse_outputs command_output_sessions command_output_model =
     and_then (decode command_output_sessions) (\<lambda>text_sessions.
     and_then (index (split text_sessions) 3) (\<lambda>current_asa_sessions.
     and_then (decode command_output_model) (\<lambda>text_model.
     and_then (index (split text_model) 3) (\<lambda>field.
     and_then (index (split_on (CHR 0x22) field) 1) (\<lambda>asa_model.
       Inr (current_asa_sessions, asa_model))))))"

subsection \<open>The model-aware critical-high threshold (lines 88-94)\<close>

text \<open>The dictionary is updated in place; the model returns the updated dictionary.\<close>

definition resolve_critical_high :: "pydict \<Rightarrow> string \<Rightarrow> exc + pydict" where
  "resolve_critical_high d asa_model =
     and_then (lookup d ''high_threshold_set'') (\<lambda>flag.
       if eq_False flag then
         and_then (lookup d asa_model) (\<lambda>ceiling.
           if truthy ceiling then Inr (d(''critical_high'' \<mapsto> ceiling))
           else and_then (lookup d ''UNKNOWN_MODEL'') (\<lambda>fallback.
                  Inr (d(''critical_high'' \<mapsto> fallback))))
       else Inr d)"

subsection \<open>Debug output (lines 96-110)\<close>

text \<open>
  Whether the debug listing is printed. The listing only writes the settings and the
  raw and parsed outputs to standard output before the status line; its text is not
  modelled.
\<close>

definition debug_enabled :: "pydict \<Rightarrow> exc + bool" where
  "debug_enabled d =
     and_then (lookup d ''debug'') (\<lambda>v. Inr (eq_True v))"

subsection \<open>Threshold evaluation (lines 112-125)\<close>

definition status_msg :: "string \<Rightarrow> string \<Rightarrow> string" where
  "status_msg current_asa_sessions asa_model =
     ''Current sessions: '' @ current_asa_sessions @ '' MODEL: '' @ asa_model
     @ '' | current_sessions='' @ current_asa_sessions"

text \<open>
  The five conditions, with Python's evaluation order: operands left to right, and in a
  chained comparison the second half only when the first half holds.
\<close>

definition cond1 :: "pydict \<Rightarrow> string \<Rightarrow> exc + bool" where
  "cond1 d tok =
     and_then (py_int tok) (\<lambda>s.
     and_then (lookup d ''critical_low'') (\<lambda>v.
     and_then (num_of v) (\<lambda>cl. Inr (s \<le> cl))))"

definition cond2 :: "pydict \<Rightarrow> string \<Rightarrow> exc + bool" where
  "cond2 d tok =
     and_then (lookup d ''critical_low'') (\<lambda>v.
     and_then (py_int tok) (\<lambda>s.
     and_then (num_of v) (\<lambda>cl.
       if cl < s then
         and_then (lookup d ''warning_low'') (\<lambda>w.
         and_then (num_of w) (\<lambda>wl. Inr (s \<le> wl)))
       else Inr False)))"

definition cond3 :: "pydict \<Rightarrow> string \<Rightarrow> exc + bool" where
  "cond3 d tok =
     and_then (lookup d ''warning_low'') (\<lambda>v.
     and_then (py_int tok) (\<lambda>s.
     and_then (num_of v) (\<lambda>wl.
       if wl < s then
         and_then (lookup d ''warning_high'') (\<lambda>w.
         and_then (num_of w) (\<lambda>wh. Inr (s < wh)))
       else Inr False)))"

definition cond4 :: "pydict \<Rightarrow> string \<Rightarrow> exc + bool" where
  "cond4 d tok =
     and_then (lookup d ''warning_high'') (\<lambda>v.
     and_then (py_int tok) (\<lambda>s.
     and_then (num_of v) (\<lambda>wh.
       if wh \<le> s then
         and_then (lookup d ''critical_high'') (\<lambda>w.
         and_then (num_of w) (\<lambda>ch. Inr (s < ch)))
       else Inr False)))"

definition cond5 :: "pydict \<Rightarrow> string \<Rightarrow> exc + bool" where
  "cond5 d tok =
     and_then (py_int tok) (\<lambda>s.
     and_then (lookup d ''critical_high'') (\<lambda>v.
     and_then (num_of v) (\<lambda>ch. Inr (s \<ge> ch))))"

text \<open>
  The statement \<open>if c: report(msg)\<close> followed by the rest of the function: an exception
  in the condition ends the run, a true condition reports and exits, a false one goes
  on.
\<close>

definition if_then_exit :: "exc + bool \<Rightarrow> outcome \<Rightarrow> outcome \<Rightarrow> outcome" where
  "if_then_exit c report rest =
     (case c of Inl e \<Rightarrow> Uncaught e | Inr b \<Rightarrow> if b then report else rest)"

definition evaluate_thresholds :: "pydict \<Rightarrow> string \<Rightarrow> string \<Rightarrow> outcome" where
  "evaluate_thresholds d tok msg =
     if_then_exit (cond1 d tok) (critical msg)
    (if_then_exit (cond2 d tok) (warning msg)
    (if_then_exit (cond3 d tok) (ok msg)
    (if_then_exit (cond4 d tok) (warning msg)
    (if_then_exit (cond5 d tok) (critical msg)
     Returned))))"

subsection \<open>The whole function\<close>

text \<open>
  The result of a call: the dictionary as the call leaves it, whether the debug listing
  was printed, and how the call ended.
\<close>

record run =
  settings :: pydict
  debug_listing :: bool
  ending :: outcome

definition check_asa_sessions :: "shell \<Rightarrow> pydict \<Rightarrow> run" where
  "check_asa_sessions sh d =
     (case acquire sh d of
        Inl e \<Rightarrow>
          (case poll_error_msg d of
             Inl e' \<Rightarrow> \<lparr>settings = d, debug_listing = False, ending = Uncaught e'\<rparr>
           | Inr msg \<Rightarrow> \<lparr>settings = d, debug_listing = False, ending = error msg\<rparr>)
      | Inr (command_output_sessions, command_output_model) \<Rightarrow>
          (case parse_outputs command_output_sessions command_output_model of
             Inl e \<Rightarrow> \<lparr>settings = d, debug_listing = False, ending = error parse_error_msg\<rparr>
           | Inr (current_asa_sessions, asa_model) \<Rightarrow>
               (case resolve_critical_high d asa_model of
                  Inl e \<Rightarrow> \<lparr>settings = d, debug_listing = False, ending = Uncaught e\<rparr>
                | Inr d' \<Rightarrow>
                    (case debug_enabled d' of
                       Inl e \<Rightarrow> \<lparr>settings = d', debug_listing = False, ending = Uncaught e\<rparr>
                     | Inr dbg \<Rightarrow>
                         \<lparr>settings = d', debug_listing = dbg,
                          ending = evaluate_thresholds d' current_asa_sessions
                                     (status_msg current_asa_sessions asa_model)\<rparr>))))"

section \<open>\<open>main\<close>\<close>

text \<open>
  The namespace that \<open>argparse\<close> returns: the two positional strings, the four optional
  integers (\<open>None\<close> when the option is not given) and the debug switch.
\<close>

record args =
  SNMP_COMMUNITY :: string
  HOST :: string
  warning_arg :: "int option"
  critical_arg :: "int option"
  wl_arg :: "int option"
  cl_arg :: "int option"
  debug_arg :: bool

text \<open>The dictionary literal of lines 148-166.\<close>

definition required_values :: "args \<Rightarrow> pydict" where
  "required_values a =
     [''snmp_community'' \<mapsto> PStr (SNMP_COMMUNITY a),
      ''snmp_host'' \<mapsto> PStr (HOST a),
      ''snmp_oid_asa_model'' \<mapsto> PStr ''.1.3.6.1.2.1.47.1.1.1.1.13.1'',
      ''snmp_oid_asa_sessions'' \<mapsto> PStr ''.1.3.6.1.4.1.9.9.147.1.2.2.2.1.5.40.6'',
      ''warning_low'' \<mapsto> PInt (- 1),
      ''warning_high'' \<mapsto> PInt 50000,
      ''critical_low'' \<mapsto> PInt (- 2),
      ''critical_high'' \<mapsto> PInt 100000,
      ''high_threshold_set'' \<mapsto> PBool False,
      ''debug'' \<mapsto> PBool False,
      ''ASA5505'' \<mapsto> PInt 10000,
      ''ASA5510'' \<mapsto> PInt 50000,
      ''ASA5512'' \<mapsto> PInt 280000,
      ''ASA5520'' \<mapsto> PInt 280000,
      ''ASA5540'' \<mapsto> PInt 400000,
      ''ASA5550'' \<mapsto> PInt 650000,
      ''UNKNOWN_MODEL'' \<mapsto> PInt 800000]"

text \<open>\<open>if args.x:\<close> on an optional integer: true when it is given and not zero.\<close>

fun given :: "int option \<Rightarrow> bool" where
  "given None = False"
| "given (Some v) = (v \<noteq> 0)"

text \<open>Lines 168-182: the operator's overrides, one statement after the other.\<close>

definition set_wl :: "args \<Rightarrow> pydict \<Rightarrow> pydict" where
  "set_wl a d = (if given (wl_arg a) then d(''warning_low'' \<mapsto> PInt (the (wl_arg a))) else d)"

definition set_cl :: "args \<Rightarrow> pydict \<Rightarrow> pydict" where
  "set_cl a d = (if given (cl_arg a) then d(''critical_low'' \<mapsto> PInt (the (cl_arg a))) else d)"

definition set_warning :: "args \<Rightarrow> pydict \<Rightarrow> pydict" where
  "set_warning a d =
     (if given (warning_arg a) then d(''warning_high'' \<mapsto> PInt (the (warning_arg a))) else d)"

definition set_critical :: "args \<Rightarrow> pydict \<Rightarrow> pydict" where
  "set_critical a d =
     (if given (critical_arg a)
      then d(''critical_high'' \<mapsto> PInt (the (critical_arg a)),
             ''high_threshold_set'' \<mapsto> PBool True)
      else d)"

definition set_debug :: "args \<Rightarrow> pydict \<Rightarrow> pydict" where
  "set_debug a d = (if debug_arg a then d(''debug'' \<mapsto> PBool True) else d)"

definition build_settings :: "args \<Rightarrow> pydict" where
  "build_settings a =
     set_debug a (set_critical a (set_warning a (set_cl a (set_wl a (required_values a)))))"

definition main :: "shell \<Rightarrow> args \<Rightarrow> run" where
  "main sh a = check_asa_sessions sh (build_settings a)"

section \<open>The bands as the specification lists them\<close>

text \<open>
  The specification of \<open>classify\<close> gives five bands in a fixed order, each with the
  level it reports, and lets the first band whose condition holds govern. This is that
  table, written from the specification's words, for comparison with
  \<open>evaluate_thresholds\<close>.
\<close>

definition spec_bands ::
    "int \<Rightarrow> int \<Rightarrow> int \<Rightarrow> int \<Rightarrow> int \<Rightarrow> (bool \<times> (string \<Rightarrow> outcome)) list" where
  "spec_bands s cl wl wh ch =
     [(s \<le> cl, critical),
      (cl < s \<and> s \<le> wl, warning),
      (wl < s \<and> s < wh, ok),
      (wh \<le> s \<and> s < ch, warning),
      (s \<ge> ch, critical)]"

definition first_match :: "(bool \<times> 'a) list \<Rightarrow> 'a option" where
  "first_match bs = map_option snd (find fst bs)"

section \<open>Example runs\<close>

text \<open>A command line with no optional argument.\<close>

definition example_args :: args where
  "example_args =
     \<lparr>SNMP_COMMUNITY = ''public'', HOST = ''192.0.2.1'', warning_arg = None,
      critical_arg = None, wl_arg = None, cl_arg = None, debug_arg = False\<rparr>"

text \<open>\<open>-c 0\<close>, \<open>-c 1000\<close>, and four thresholds in the reverse of the expected order.\<close>

definition zero_critical_args :: args where
  "zero_critical_args = example_args\<lparr>critical_arg := Some 0\<rparr>"


definition misordered_args :: args where
  "misordered_args =
     \<lparr>SNMP_COMMUNITY = ''public'', HOST = ''192.0.2.1'', warning_arg = Some 3,
      critical_arg = Some 1, wl_arg = Some 5, cl_arg = Some 10, debug_arg = False\<rparr>"

text \<open>\<open>-cl 10\<close> alone: the CRITICAL (low) band then overlaps the OK band.\<close>

definition overlapping_args :: args where
  "overlapping_args = example_args\<lparr>cl_arg := Some 10\<rparr>"

definition quoted :: "string \<Rightarrow> string" where
  "quoted s = [CHR 0x22] @ s @ [CHR 0x22]"

text \<open>
  A device that answers both polls of \<open>example_args\<close> the way \<open>snmpwalk\<close> prints them:
  \<open>sessions\<close> is the value part of the session line (\<open>Gauge32: 12\<close> for twelve
  sessions), \<open>model\<close> the model name, printed as a quoted string.
\<close>

definition example_shell :: "string \<Rightarrow> string \<Rightarrow> shell" where
  "example_shell sessions model argv =
     (if argv = [''snmpwalk'', ''-v'', ''2c'', ''-c'', ''public'', ''192.0.2.1'',
                 ''.1.3.6.1.4.1.9.9.147.1.2.2.2.1.5.40.6'']
      then Some (Utf8 (''SNMPv2-SMI::enterprises.9.9.147.1.2.2.2.1.5.40.6 = ''
                       @ sessions @ [newline]))
      else if argv = [''snmpwalk'', ''-v'', ''2c'', ''-c'', ''public'', ''192.0.2.1'',
                      ''.1.3.6.1.2.1.47.1.1.1.1.13.1'']
      then Some (Utf8 (''SNMPv2-SMI::mib-2.47.1.1.1.1.13.1 = STRING: ''
                       @ quoted model @ [newline]))
      else None)"

text \<open>
  A host that cannot be polled, one that answers the session poll only, and one whose
  answers are empty.
\<close>

definition dead_shell :: shell where
  "dead_shell argv = None"

definition sessions_only_shell :: shell where
  "sessions_only_shell argv =
     (if argv = [''snmpwalk'', ''-v'', ''2c'', ''-c'', ''public'', ''192.0.2.1'',
                 ''.1.3.6.1.4.1.9.9.147.1.2.2.2.1.5.40.6'']
      then Some (Utf8 (''SNMPv2-SMI::enterprises.9.9.147.1.2.2.2.1.5.40.6 = Gauge32: 12''
                       @ [newline]))
      else None)"

definition mute_shell :: shell where
  "mute_shell argv = Some (Utf8 [])"

section \<open>Facts about the settings that \<open>main\<close> builds\<close>

lemmas py_int_defs = py_int_def strip_def signed_of_def is_space_def is_digit_def digit_val_def

lemmas build_defs = build_settings_def set_debug_def set_critical_def set_warning_def
  set_cl_def set_wl_def required_values_def

lemma settings_host: "build_settings a ''snmp_host'' = Some (PStr (HOST a))"
  by (simp add: build_defs)

lemma settings_community:
  "build_settings a ''snmp_community'' = Some (PStr (SNMP_COMMUNITY a))"
  by (simp add: build_defs)

lemma settings_oid_sessions:
  "build_settings a ''snmp_oid_asa_sessions''
     = Some (PStr ''.1.3.6.1.4.1.9.9.147.1.2.2.2.1.5.40.6'')"
  by (simp add: build_defs)

lemma settings_oid_model:
  "build_settings a ''snmp_oid_asa_model'' = Some (PStr ''.1.3.6.1.2.1.47.1.1.1.1.13.1'')"
  by (simp add: build_defs)

text \<open>With the settings of \<open>main\<close>, a poll fails exactly when the command does.\<close>

lemma snmpwalk_sessions:
  "snmpwalk sh (build_settings a) ''snmp_oid_asa_sessions'' =
     (case sh [''snmpwalk'', ''-v'', ''2c'', ''-c'', SNMP_COMMUNITY a, HOST a,
               ''.1.3.6.1.4.1.9.9.147.1.2.2.2.1.5.40.6''] of
        None \<Rightarrow> Inl SubprocessError | Some out \<Rightarrow> Inr out)"
  by (simp add: snmpwalk_def lookup_def and_then_def settings_host settings_community
      settings_oid_sessions check_output_def)

lemma snmpwalk_model:
  "snmpwalk sh (build_settings a) ''snmp_oid_asa_model'' =
     (case sh [''snmpwalk'', ''-v'', ''2c'', ''-c'', SNMP_COMMUNITY a, HOST a,
               ''.1.3.6.1.2.1.47.1.1.1.1.13.1''] of
        None \<Rightarrow> Inl SubprocessError | Some out \<Rightarrow> Inr out)"
  by (simp add: snmpwalk_def lookup_def and_then_def settings_host settings_community
      settings_oid_model check_output_def)

lemma poll_error_msg_main:
  "poll_error_msg (build_settings a) =
     Inr (''Something went wrong with subprocess command '' @ [CHR 0x27] @ ''snmpwalk''
          @ [CHR 0x27] @ [newline] @ ''Is the host '' @ HOST a @ '' reachable?''
          @ [newline] @ ''Is it configured to accept SNMP polls from this host?''
          @ [newline] @ ''Is SNMP community string '' @ [CHR 0x27] @ SNMP_COMMUNITY a
          @ [CHR 0x27] @ '' valid?'')"
  by (simp add: poll_error_msg_def lookup_def and_then_def settings_host settings_community)

text \<open>
  What \<open>-c\<close> does when its value is not zero, and what the resolution does with a model
  name that is no key of the dictionary.
\<close>

lemma critical_nonzero_sets:
  assumes "critical_arg a = Some c" and "c \<noteq> 0"
  shows "build_settings a ''critical_high'' = Some (PInt c)
       \<and> build_settings a ''high_threshold_set'' = Some (PBool True)"
  using assms by (simp add: build_defs)

lemma resolve_absent_model:
  assumes "d ''high_threshold_set'' = Some (PBool False)" and "d asa_model = None"
  shows "resolve_critical_high d asa_model = Inl (KeyError asa_model)"
  using assms by (simp add: resolve_critical_high_def lookup_def and_then_def)

section \<open>The five conditions on integer thresholds\<close>

lemma cond1_int:
  "py_int tok = Inr s \<Longrightarrow> d ''critical_low'' = Some (PInt cl) \<Longrightarrow> cond1 d tok = Inr (s \<le> cl)"
  by (simp add: cond1_def lookup_def and_then_def)

lemma cond2_int:
  "py_int tok = Inr s \<Longrightarrow> d ''critical_low'' = Some (PInt cl) \<Longrightarrow>
   d ''warning_low'' = Some (PInt wl) \<Longrightarrow> cond2 d tok = Inr (cl < s \<and> s \<le> wl)"
  by (simp add: cond2_def lookup_def and_then_def)

lemma cond3_int:
  "py_int tok = Inr s \<Longrightarrow> d ''warning_low'' = Some (PInt wl) \<Longrightarrow>
   d ''warning_high'' = Some (PInt wh) \<Longrightarrow> cond3 d tok = Inr (wl < s \<and> s < wh)"
  by (simp add: cond3_def lookup_def and_then_def)

lemma cond4_int:
  "py_int tok = Inr s \<Longrightarrow> d ''warning_high'' = Some (PInt wh) \<Longrightarrow>
   d ''critical_high'' = Some (PInt ch) \<Longrightarrow> cond4 d tok = Inr (wh \<le> s \<and> s < ch)"
  by (simp add: cond4_def lookup_def and_then_def)

lemma cond5_int:
  "py_int tok = Inr s \<Longrightarrow> d ''critical_high'' = Some (PInt ch) \<Longrightarrow> cond5 d tok = Inr (s \<ge> ch)"
  by (simp add: cond5_def lookup_def and_then_def)

text \<open>The sequence of guarded reports as one chain of tests.\<close>

lemma evaluate_thresholds_int:
  assumes "py_int tok = Inr s"
    and "d ''critical_low'' = Some (PInt cl)" and "d ''warning_low'' = Some (PInt wl)"
    and "d ''warning_high'' = Some (PInt wh)" and "d ''critical_high'' = Some (PInt ch)"
  shows "evaluate_thresholds d tok msg =
           (if s \<le> cl then critical msg
            else if cl < s \<and> s \<le> wl then warning msg
            else if wl < s \<and> s < wh then ok msg
            else if wh \<le> s \<and> s < ch then warning msg
            else if s \<ge> ch then critical msg
            else Returned)"
  unfolding evaluate_thresholds_def
  by (simp add: cond1_int[of tok s d cl] cond2_int[of tok s d cl wl]
      cond3_int[of tok s d wl wh] cond4_int[of tok s d wh ch] cond5_int[of tok s d ch] assms
      if_then_exit_def)

text \<open>The settings of the example command lines.\<close>

lemma example_thresholds:
  "build_settings example_args ''critical_low'' = Some (PInt (- 2))"
  "build_settings example_args ''warning_low'' = Some (PInt (- 1))"
  "build_settings example_args ''warning_high'' = Some (PInt 50000)"
  "build_settings example_args ''critical_high'' = Some (PInt 100000)"
  by (simp_all add: build_defs example_args_def)

lemma overlapping_thresholds:
  "build_settings overlapping_args ''critical_low'' = Some (PInt 10)"
  "build_settings overlapping_args ''warning_low'' = Some (PInt (- 1))"
  "build_settings overlapping_args ''warning_high'' = Some (PInt 50000)"
  "build_settings overlapping_args ''critical_high'' = Some (PInt 100000)"
  by (simp_all add: build_defs overlapping_args_def example_args_def)

lemma misordered_thresholds:
  "build_settings misordered_args ''critical_low'' = Some (PInt 10)"
  "build_settings misordered_args ''warning_low'' = Some (PInt 5)"
  "build_settings misordered_args ''warning_high'' = Some (PInt 3)"
  "build_settings misordered_args ''critical_high'' = Some (PInt 1)"
  by (simp_all add: build_defs misordered_args_def)

section \<open>The claims\<close>

subsection \<open>Threshold resolution\<close>

text \<open>
  C1. A model name absent from the defaults table, with no explicit critical-high
  threshold, is meant to resolve to the fallback ceiling 800000 and never to end the run
  abnormally. The code reads \<open>snmp_check_values[asa_model]\<close> before it can reach the
  fallback branch: for a device reporting \<open>ASA5515\<close> the lookup raises \<open>KeyError\<close>, no
  status line is printed and the exit status is 1.
\<close>

theorem unknown_model_raises_KeyError:
  "ending (main (example_shell ''Gauge32: 12'' ''ASA5515'') example_args) = Uncaught (KeyError ''ASA5515'')
   \<and> exit_status (ending (main (example_shell ''Gauge32: 12'' ''ASA5515'') example_args)) = 1
   \<and> settings (main (example_shell ''Gauge32: 12'' ''ASA5515'') example_args) ''critical_high''
       = Some (PInt 100000)"
  by code_simp

text \<open>
  C2. Every integer given with \<open>-c\<close>, zero included, is meant to become
  \<open>critical_high\<close> and to set \<open>high_threshold_set\<close>. The test \<open>if args.critical:\<close> is
  false for 0, so \<open>-c 0\<close> leaves the default 100000 and the flag unset.
\<close>

theorem critical_zero_ignored:
  "critical_arg zero_critical_args = Some 0
   \<and> build_settings zero_critical_args ''critical_high'' = Some (PInt 100000)
   \<and> build_settings zero_critical_args ''high_threshold_set'' = Some (PBool False)"
  by (simp add: build_defs zero_critical_args_def example_args_def)






subsection \<open>Parsing\<close>

text \<open>
  C3. A session-count field that is present but not a number is meant to end the run
  with the parse diagnostic and exit status 3. The token is converted with \<open>int\<close> only
  in the threshold tests, outside the \<open>try\<close> that reports parse errors. When the device
  does not know the session OID, \<open>snmpwalk\<close> prints
  \<open>No Such Object available on this agent at this OID\<close>; the fourth token is \<open>Such\<close>,
  parsing succeeds, and the run ends with an uncaught \<open>ValueError\<close> and exit status 1.
\<close>

theorem non_numeric_sessions_raise_ValueError:
  "parse_outputs
     (Utf8 (''SNMPv2-SMI::enterprises.9.9.147.1.2.2.2.1.5.40.6 = ''
            @ ''No Such Object available on this agent at this OID'' @ [newline]))
     (Utf8 (''SNMPv2-SMI::mib-2.47.1.1.1.1.13.1 = STRING: '' @ quoted ''ASA5510'' @ [newline]))
     = Inr (''Such'', ''ASA5510'')
   \<and> py_int ''Such'' = Inl ValueError
   \<and> ending (main (example_shell ''No Such Object available on this agent at this OID''
                     ''ASA5510'') example_args) = Uncaught ValueError
   \<and> exit_status
        (ending (main (example_shell ''No Such Object available on this agent at this OID''
                         ''ASA5510'') example_args)) = 1"
  by code_simp

subsection \<open>Classification\<close>

text \<open>
  C4. For every session count and all integer thresholds, in any order, the verdict is
  the one of the first band, in the listed order 1 to 5, whose condition holds; a later
  band that also holds does not change it.
\<close>

theorem first_band_governs:
  assumes "py_int tok = Inr s"
    and "d ''critical_low'' = Some (PInt cl)" and "d ''warning_low'' = Some (PInt wl)"
    and "d ''warning_high'' = Some (PInt wh)" and "d ''critical_high'' = Some (PInt ch)"
  shows "evaluate_thresholds d tok msg =
           (case first_match (spec_bands s cl wl wh ch) of
              Some report \<Rightarrow> report msg
            | None \<Rightarrow> Returned)"
  unfolding evaluate_thresholds_int[OF assms]
  by (simp add: first_match_def spec_bands_def)

theorem first_band_governs_witness:
  "py_int ''4'' = Inr 4
   \<and> build_settings misordered_args ''critical_low'' = Some (PInt 10)
   \<and> build_settings misordered_args ''warning_low'' = Some (PInt 5)
   \<and> build_settings misordered_args ''warning_high'' = Some (PInt 3)
   \<and> build_settings misordered_args ''critical_high'' = Some (PInt 1)
   \<and> evaluate_thresholds (build_settings misordered_args) ''4'' ''m'' = critical ''m''
   \<and> py_int ''5'' = Inr 5
   \<and> build_settings overlapping_args ''critical_low'' = Some (PInt 10)
   \<and> build_settings overlapping_args ''warning_low'' = Some (PInt (- 1))
   \<and> build_settings overlapping_args ''warning_high'' = Some (PInt 50000)
   \<and> build_settings overlapping_args ''critical_high'' = Some (PInt 100000)
   \<and> cond3 (build_settings overlapping_args) ''5'' = Inr True
   \<and> evaluate_thresholds (build_settings overlapping_args) ''5'' ''m'' = critical ''m''"
proof -
  have h: "py_int ''4'' = Inr 4" by (simp add: py_int_defs)
  have a: "evaluate_thresholds (build_settings misordered_args) ''4'' ''m'' = critical ''m''"
    using first_band_governs [of "''4''" 4 "build_settings misordered_args" 10 5 3 1 "''m''"]
      h misordered_thresholds
    by (simp add: first_match_def spec_bands_def)
  have h': "py_int ''5'' = Inr 5" by (simp add: py_int_defs)
  have c3: "cond3 (build_settings overlapping_args) ''5'' = Inr True"
    using cond3_int [of "''5''" 5 "build_settings overlapping_args" "- 1" 50000]
      h' overlapping_thresholds
    by simp
  have b: "evaluate_thresholds (build_settings overlapping_args) ''5'' ''m'' = critical ''m''"
    using first_band_governs [of "''5''" 5 "build_settings overlapping_args" 10 "- 1" 50000
        100000 "''m''"] h' overlapping_thresholds
    by (simp add: first_match_def spec_bands_def)
  from h a h' c3 b misordered_thresholds overlapping_thresholds show ?thesis by simp
qed

text \<open>
  C6. With \<open>critical_low < warning_low < warning_high < critical_high\<close>: a count equal
  to \<open>critical_low\<close> is CRITICAL, equal to \<open>warning_low\<close> is WARNING, equal to
  \<open>warning_high\<close> is WARNING, equal to \<open>critical_high\<close> is CRITICAL, and a count
  strictly between \<open>warning_low\<close> and \<open>warning_high\<close> is OK.
\<close>

theorem boundary_classification:
  assumes "py_int tok = Inr s"
    and "d ''critical_low'' = Some (PInt cl)" and "d ''warning_low'' = Some (PInt wl)"
    and "d ''warning_high'' = Some (PInt wh)" and "d ''critical_high'' = Some (PInt ch)"
    and "cl < wl" and "wl < wh" and "wh < ch"
  shows "(s = cl \<longrightarrow> evaluate_thresholds d tok msg = critical msg)
       \<and> (s = wl \<longrightarrow> evaluate_thresholds d tok msg = warning msg)
       \<and> (s = wh \<longrightarrow> evaluate_thresholds d tok msg = warning msg)
       \<and> (s = ch \<longrightarrow> evaluate_thresholds d tok msg = critical msg)
       \<and> (wl < s \<and> s < wh \<longrightarrow> evaluate_thresholds d tok msg = ok msg)"
  unfolding evaluate_thresholds_int[OF assms(1-5)] using assms(6-8) by simp

theorem boundary_classification_witness:
  "evaluate_thresholds (build_settings example_args) ''-2'' ''m'' = critical ''m''
   \<and> evaluate_thresholds (build_settings example_args) ''-1'' ''m'' = warning ''m''
   \<and> evaluate_thresholds (build_settings example_args) ''50000'' ''m'' = warning ''m''
   \<and> evaluate_thresholds (build_settings example_args) ''100000'' ''m'' = critical ''m''
   \<and> evaluate_thresholds (build_settings example_args) ''0'' ''m'' = ok ''m''"
proof -
  note h = example_thresholds
  have t1: "py_int ''-2'' = Inr (- 2)" by (simp add: py_int_defs)
  have t2: "py_int ''-1'' = Inr (- 1)" by (simp add: py_int_defs)
  have t3: "py_int ''50000'' = Inr 50000" by (simp add: py_int_defs)
  have t4: "py_int ''100000'' = Inr 100000" by (simp add: py_int_defs)
  have t5: "py_int ''0'' = Inr 0" by (simp add: py_int_defs)
  have a: "evaluate_thresholds (build_settings example_args) ''-2'' ''m'' = critical ''m''"
    using boundary_classification [of "''-2''" "- 2" "build_settings example_args"
        "- 2" "- 1" 50000 100000 "''m''"] t1 h by simp
  have b: "evaluate_thresholds (build_settings example_args) ''-1'' ''m'' = warning ''m''"
    using boundary_classification [of "''-1''" "- 1" "build_settings example_args"
        "- 2" "- 1" 50000 100000 "''m''"] t2 h by simp
  have c: "evaluate_thresholds (build_settings example_args) ''50000'' ''m'' = warning ''m''"
    using boundary_classification [of "''50000''" 50000 "build_settings example_args"
        "- 2" "- 1" 50000 100000 "''m''"] t3 h by simp
  have d: "evaluate_thresholds (build_settings example_args) ''100000'' ''m'' = critical ''m''"
    using boundary_classification [of "''100000''" 100000 "build_settings example_args"
        "- 2" "- 1" 50000 100000 "''m''"] t4 h by simp
  have e: "evaluate_thresholds (build_settings example_args) ''0'' ''m'' = ok ''m''"
    using boundary_classification [of "''0''" 0 "build_settings example_args"
        "- 2" "- 1" 50000 100000 "''m''"] t5 h by simp
  from a b c d e show ?thesis by simp
qed

text \<open>
  C10. For every integer session count and all integer thresholds, in any order, at
  least one of the five conditions holds: the threshold tests always report one of
  CRITICAL, WARNING and OK and never run off the end of the function.
\<close>

theorem some_band_matches:
  assumes "py_int tok = Inr s"
    and "d ''critical_low'' = Some (PInt cl)" and "d ''warning_low'' = Some (PInt wl)"
    and "d ''warning_high'' = Some (PInt wh)" and "d ''critical_high'' = Some (PInt ch)"
  shows "(cond1 d tok = Inr True \<or> cond2 d tok = Inr True \<or> cond3 d tok = Inr True
          \<or> cond4 d tok = Inr True \<or> cond5 d tok = Inr True)
       \<and> (evaluate_thresholds d tok msg = critical msg
          \<or> evaluate_thresholds d tok msg = warning msg
          \<or> evaluate_thresholds d tok msg = ok msg)
       \<and> evaluate_thresholds d tok msg \<noteq> Returned"
proof -
  have bands:
    "s \<le> cl \<or> (cl < s \<and> s \<le> wl) \<or> (wl < s \<and> s < wh) \<or> (wh \<le> s \<and> s < ch) \<or> s \<ge> ch"
    by linarith
  have c: "cond1 d tok = Inr True \<or> cond2 d tok = Inr True \<or> cond3 d tok = Inr True
          \<or> cond4 d tok = Inr True \<or> cond5 d tok = Inr True"
    using bands
    by (simp add: cond1_int[of tok s d cl] cond2_int[of tok s d cl wl]
        cond3_int[of tok s d wl wh] cond4_int[of tok s d wh ch] cond5_int[of tok s d ch] assms)
  have v: "evaluate_thresholds d tok msg = critical msg
          \<or> evaluate_thresholds d tok msg = warning msg
          \<or> evaluate_thresholds d tok msg = ok msg"
    unfolding evaluate_thresholds_int[OF assms] using bands by auto
  have "evaluate_thresholds d tok msg \<noteq> Returned"
    using v by (auto simp: critical_def warning_def ok_def)
  with c v show ?thesis by blast
qed

theorem some_band_matches_witness:
  "py_int ''20'' = Inr 20
   \<and> build_settings misordered_args ''critical_low'' = Some (PInt 10)
   \<and> build_settings misordered_args ''warning_low'' = Some (PInt 5)
   \<and> build_settings misordered_args ''warning_high'' = Some (PInt 3)
   \<and> build_settings misordered_args ''critical_high'' = Some (PInt 1)
   \<and> cond5 (build_settings misordered_args) ''20'' = Inr True
   \<and> evaluate_thresholds (build_settings misordered_args) ''20'' ''m'' = critical ''m''"
proof -
  have h: "py_int ''20'' = Inr 20" by (simp add: py_int_defs)
  have c5: "cond5 (build_settings misordered_args) ''20'' = Inr True"
    using cond5_int [of "''20''" 20 "build_settings misordered_args" 1] h misordered_thresholds
    by simp
  have "evaluate_thresholds (build_settings misordered_args) ''20'' ''m'' = critical ''m''"
    using some_band_matches [of "''20''" 20 "build_settings misordered_args" 10 5 3 1 "''m''"]
      h misordered_thresholds
    by (auto simp: warning_def ok_def critical_def evaluate_thresholds_int
        [of "''20''" 20 "build_settings misordered_args" 10 5 3 1 "''m''"])
  with h c5 misordered_thresholds show ?thesis by simp
qed

subsection \<open>Exit codes and failures\<close>

text \<open>
  The reporting functions exit with 0 for OK, 1 for WARNING, 2 for CRITICAL and 3 for
  UNKNOWN and ERROR. A failed poll, and a parse failure that the second \<open>try\<close> catches,
  both exit with 3, and whenever a run ends in a reporting function the code is the one
  of the level it printed. This covers only the runs that end in a reporting function.
\<close>

lemma exit_code_matches_level:
  "exit_status (ok msg) = 0 \<and> exit_status (warning msg) = 1 \<and> exit_status (critical msg) = 2
   \<and> exit_status (unknown msg) = 3 \<and> exit_status (error msg) = 3
   \<and> (acquire sh (build_settings a) = Inl e \<longrightarrow> exit_status (ending (main sh a)) = 3)
   \<and> (acquire sh (build_settings a) = Inr (out_s, out_m) \<and> parse_outputs out_s out_m = Inl e'
        \<longrightarrow> exit_status (ending (main sh a)) = 3)
   \<and> (ending (main sh a) = SysExit c out \<longrightarrow>
          (c = 0 \<and> prefix ''OK: '' out) \<or> (c = 1 \<and> prefix ''WARNING: '' out)
        \<or> (c = 2 \<and> prefix ''CRITICAL: '' out) \<or> (c = 3 \<and> prefix ''ERROR: '' out))"
proof -
  have codes: "exit_status (ok msg) = 0 \<and> exit_status (warning msg) = 1
      \<and> exit_status (critical msg) = 2 \<and> exit_status (unknown msg) = 3
      \<and> exit_status (error msg) = 3"
    by (simp add: ok_def warning_def critical_def unknown_def error_def)
  have poll: "exit_status (ending (main sh a)) = 3" if "acquire sh (build_settings a) = Inl e"
    using that by (simp add: main_def check_asa_sessions_def poll_error_msg_main error_def)
  have parse: "exit_status (ending (main sh a)) = 3"
    if "acquire sh (build_settings a) = Inr (out_s, out_m)" "parse_outputs out_s out_m = Inl e'"
    using that by (simp add: main_def check_asa_sessions_def error_def)
  have ev: "(c = 0 \<and> prefix ''OK: '' out) \<or> (c = 1 \<and> prefix ''WARNING: '' out)
        \<or> (c = 2 \<and> prefix ''CRITICAL: '' out) \<or> (c = 3 \<and> prefix ''ERROR: '' out)"
    if "evaluate_thresholds d tok m = SysExit c out" for d tok m
    using that
    by (auto simp: evaluate_thresholds_def if_then_exit_def ok_def warning_def critical_def
        print2_def split: sum.splits if_splits)
  have level: "(c = 0 \<and> prefix ''OK: '' out) \<or> (c = 1 \<and> prefix ''WARNING: '' out)
        \<or> (c = 2 \<and> prefix ''CRITICAL: '' out) \<or> (c = 3 \<and> prefix ''ERROR: '' out)"
    if "ending (main sh a) = SysExit c out"
    using that ev
    by (auto simp: main_def check_asa_sessions_def poll_error_msg_main error_def print2_def
        split: sum.splits prod.splits)
  from codes poll parse level show ?thesis by blast
qed

lemma exit_code_matches_level_example:
  "acquire dead_shell (build_settings example_args) = Inl SubprocessError
   \<and> exit_status (ending (main dead_shell example_args)) = 3
   \<and> acquire mute_shell (build_settings example_args) = Inr (Utf8 [], Utf8 [])
   \<and> parse_outputs (Utf8 []) (Utf8 []) = Inl IndexError
   \<and> exit_status (ending (main mute_shell example_args)) = 3
   \<and> ending (main (example_shell ''Gauge32: 12'' ''ASA5510'') example_args)
       = SysExit 0 (print2 ''OK:'' (status_msg ''12'' ''ASA5510''))
   \<and> prefix ''OK: '' (print2 ''OK:'' (status_msg ''12'' ''ASA5510''))"
proof -
  have p1: "acquire dead_shell (build_settings example_args) = Inl SubprocessError"
    by code_simp
  have p2: "acquire mute_shell (build_settings example_args) = Inr (Utf8 [], Utf8 [])"
    by code_simp
  have p3: "parse_outputs (Utf8 []) (Utf8 []) = Inl IndexError"
    by code_simp
  have p4: "ending (main (example_shell ''Gauge32: 12'' ''ASA5510'') example_args)
       = SysExit 0 (print2 ''OK:'' (status_msg ''12'' ''ASA5510''))"
    by code_simp
  have a: "exit_status (ending (main dead_shell example_args)) = 3"
    using exit_code_matches_level [of "''m''" dead_shell example_args SubprocessError] p1
    by simp
  have b: "exit_status (ending (main mute_shell example_args)) = 3"
    using exit_code_matches_level [of "''m''" mute_shell example_args SubprocessError
        "Utf8 []" "Utf8 []" IndexError] p2 p3
    by simp
  have c: "prefix ''OK: '' (print2 ''OK:'' (status_msg ''12'' ''ASA5510''))"
    using exit_code_matches_level [of "''m''" "example_shell ''Gauge32: 12'' ''ASA5510''" example_args
        SubprocessError "Utf8 []" "Utf8 []" IndexError 0
        "print2 ''OK:'' (status_msg ''12'' ''ASA5510'')"] p4
    by simp
  from p1 p2 p3 p4 a b c show ?thesis by simp
qed

text \<open>
  C7. The exit code is meant to match the level always: 0 for OK, 1 for WARNING, 2 for
  CRITICAL, 3 for UNKNOWN and ERROR, with poll failures and parse failures both at 3.
  The runs that end in an uncaught exception break this. A session field that is not a
  number is a parse failure, yet the run leaves with status 1 instead of 3; an unknown
  model leaves with status 1 as well. Status 1 is the code of WARNING, and neither run
  prints a status line.
\<close>

theorem exit_status_without_verdict:
  "ending (main (example_shell ''No Such Object available on this agent at this OID''
                   ''ASA5510'') example_args) = Uncaught ValueError
   \<and> exit_status
        (ending (main (example_shell ''No Such Object available on this agent at this OID''
                         ''ASA5510'') example_args)) = 1
   \<and> exit_status (error parse_error_msg) = 3
   \<and> ending (main (example_shell ''Gauge32: 12'' ''ASA5515'') example_args)
       = Uncaught (KeyError ''ASA5515'')
   \<and> exit_status (ending (main (example_shell ''Gauge32: 12'' ''ASA5515'') example_args)) = 1
   \<and> exit_status (warning (status_msg ''12'' ''ASA5515'')) = 1"
  by code_simp

text \<open>
  C8. When either poll fails, the run started by \<open>main\<close> ends at once in \<open>error\<close> with
  exit code 3; the message contains the host and the community string; no OK, WARNING
  or CRITICAL line and no debug listing is printed.
\<close>

theorem poll_failure_reported:
  assumes "sh [''snmpwalk'', ''-v'', ''2c'', ''-c'', SNMP_COMMUNITY a, HOST a,
               ''.1.3.6.1.4.1.9.9.147.1.2.2.2.1.5.40.6''] = None
         \<or> sh [''snmpwalk'', ''-v'', ''2c'', ''-c'', SNMP_COMMUNITY a, HOST a,
               ''.1.3.6.1.2.1.47.1.1.1.1.13.1''] = None"
  shows "(\<exists>msg. ending (main sh a) = error msg
                \<and> sublist (HOST a) msg \<and> sublist (SNMP_COMMUNITY a) msg)
       \<and> exit_status (ending (main sh a)) = 3
       \<and> ending (main sh a) \<noteq> ok m
       \<and> ending (main sh a) \<noteq> warning m
       \<and> ending (main sh a) \<noteq> critical m
       \<and> \<not> debug_listing (main sh a)"
proof -
  let ?msg = "''Something went wrong with subprocess command '' @ [CHR 0x27] @ ''snmpwalk''
          @ [CHR 0x27] @ [newline] @ ''Is the host '' @ HOST a @ '' reachable?''
          @ [newline] @ ''Is it configured to accept SNMP polls from this host?''
          @ [newline] @ ''Is SNMP community string '' @ [CHR 0x27] @ SNMP_COMMUNITY a
          @ [CHR 0x27] @ '' valid?''"
  have "\<exists>e. acquire sh (build_settings a) = Inl e"
    using assms
    by (auto simp: acquire_def and_then_def snmpwalk_sessions snmpwalk_model
        split: option.splits)
  then have run: "main sh a =
      \<lparr>settings = build_settings a, debug_listing = False, ending = error ?msg\<rparr>"
    by (auto simp: main_def check_asa_sessions_def poll_error_msg_main)
  have h: "sublist (HOST a) ?msg"
    unfolding sublist_def by (metis append.assoc)
  have c: "sublist (SNMP_COMMUNITY a) ?msg"
    unfolding sublist_def by (metis append.assoc)
  show ?thesis
    unfolding run using h c
    by (auto simp: error_def ok_def warning_def critical_def)
qed

theorem poll_failure_reported_witness:
  "dead_shell [''snmpwalk'', ''-v'', ''2c'', ''-c'', ''public'', ''192.0.2.1'',
               ''.1.3.6.1.4.1.9.9.147.1.2.2.2.1.5.40.6''] = None
   \<and> (\<exists>msg. ending (main dead_shell example_args) = error msg
         \<and> sublist ''192.0.2.1'' msg \<and> sublist ''public'' msg)
   \<and> exit_status (ending (main dead_shell example_args)) = 3
   \<and> sessions_only_shell [''snmpwalk'', ''-v'', ''2c'', ''-c'', ''public'', ''192.0.2.1'',
               ''.1.3.6.1.4.1.9.9.147.1.2.2.2.1.5.40.6''] \<noteq> None
   \<and> sessions_only_shell [''snmpwalk'', ''-v'', ''2c'', ''-c'', ''public'', ''192.0.2.1'',
               ''.1.3.6.1.2.1.47.1.1.1.1.13.1''] = None
   \<and> (\<exists>msg. ending (main sessions_only_shell example_args) = error msg
         \<and> sublist ''192.0.2.1'' msg \<and> sublist ''public'' msg)
   \<and> exit_status (ending (main sessions_only_shell example_args)) = 3"
  using poll_failure_reported [of dead_shell example_args]
    poll_failure_reported [of sessions_only_shell example_args]
  by (simp add: dead_shell_def sessions_only_shell_def example_args_def)

end
